theory Spec2Isabelle
  imports Complex_Main
begin

section \<open>The download client of Get-Invoices\<close>

text \<open>
  The theory embeds \<^verbatim>\<open>downloadInvoices\<close> of \<^verbatim>\<open>frontend/src/services/api.ts\<close>, the
  handlers \<^verbatim>\<open>handleDownload\<close>, \<^verbatim>\<open>handleCancelDownload\<close> and \<^verbatim>\<open>handleSubmitOTP\<close> of
  \<^verbatim>\<open>frontend/src/App.tsx\<close>, and the component of
  \<^verbatim>\<open>frontend/src/components/StatusDisplay.tsx\<close>.

  A JavaScript string is a \<open>string\<close>: each character stands for one UTF-16 code unit
  below 256, so \<open>length\<close> is \<^verbatim>\<open>.length\<close> and \<open>CHR 0xE9\<close> is the e-acute of the French
  messages. The chunks of the response body are modelled after
  \<^verbatim>\<open>decoder.decode(value, { stream: true })\<close>, as the text each read appends to the buffer.
\<close>

subsection \<open>JavaScript values\<close>

text \<open>
  The values \<^verbatim>\<open>JSON.parse\<close> returns. The numbers are a type parameter: the program
  only tests them against zero and writes the constants \<open>0\<close> and \<open>-1\<close>. An object is the
  list of its own properties, read with \<open>map_of\<close>. \<^verbatim>\<open>undefined\<close> is \<open>None\<close> of an
  optional value.
\<close>

datatype 'n json =
    JNull
  | JBool bool
  | JNum 'n
  | JStr string
  | JArr "'n json list"
  | JObj "(string \<times> 'n json) list"

text \<open>
  What the program takes from the platform: \<^verbatim>\<open>JSON.parse\<close> (\<open>None\<close> when it throws a
  SyntaxError), the text of a number, and the messages of the two TypeErrors it can
  raise: reading a property of \<^verbatim>\<open>null\<close>, and converting to text an object that has no
  callable \<^verbatim>\<open>toString\<close>.
\<close>

record 'n platform =
  JSON_parse :: "string \<Rightarrow> 'n json option"
  Number_toString :: "'n \<Rightarrow> string"
  null_read_message :: "string \<Rightarrow> string"
  to_primitive_message :: string

text \<open>
  A thrown value: the name and message of the error object and its \<^verbatim>\<open>requiresOtp\<close>
  property (\<open>None\<close> when it was never assigned).
\<close>

datatype 'n js_error =
  JsError (err_name: string) (err_message: string) (err_requiresOtp: "'n json option")

definition new_Error :: "string \<Rightarrow> 'n js_error" where
  "new_Error m = JsError ''Error'' m None"

definition TypeError_null :: "'n platform \<Rightarrow> string \<Rightarrow> 'n js_error" where
  "TypeError_null plat k = JsError ''TypeError'' (null_read_message plat k) None"

definition TypeError_primitive :: "'n platform \<Rightarrow> 'n js_error" where
  "TypeError_primitive plat = JsError ''TypeError'' (to_primitive_message plat) None"

text \<open>ToBoolean.\<close>

fun truthy :: "('n::zero) json \<Rightarrow> bool" where
  "truthy JNull = False"
| "truthy (JBool b) = b"
| "truthy (JNum n) = (n \<noteq> 0)"
| "truthy (JStr s) = (s \<noteq> [])"
| "truthy (JArr xs) = True"
| "truthy (JObj kvs) = True"

text \<open>\<^verbatim>\<open>a || b\<close> and \<^verbatim>\<open>a ?? b\<close> on a value that may be \<^verbatim>\<open>undefined\<close>.\<close>

definition or_else :: "('n::zero) json option \<Rightarrow> 'n json \<Rightarrow> 'n json" where
  "or_else a b = (case a of None \<Rightarrow> b | Some v \<Rightarrow> if truthy v then v else b)"

definition nullish_else :: "'n json option \<Rightarrow> 'n json \<Rightarrow> 'n json" where
  "nullish_else a b = (case a of None \<Rightarrow> b | Some JNull \<Rightarrow> b | Some v \<Rightarrow> v)"

text \<open>
  Reading one of the properties \<^verbatim>\<open>detail\<close>, \<^verbatim>\<open>requires_otp\<close>, \<^verbatim>\<open>current\<close>, \<^verbatim>\<open>total\<close>,
  \<^verbatim>\<open>message\<close>: none of them is inherited from a prototype, so a value that is not an
  object gives \<^verbatim>\<open>undefined\<close>, and \<^verbatim>\<open>null\<close> throws a TypeError.
\<close>

definition own_prop :: "'n json \<Rightarrow> string \<Rightarrow> 'n json option" where
  "own_prop v k = (case v of JObj kvs \<Rightarrow> map_of kvs k | _ \<Rightarrow> None)"

definition get_prop :: "'n platform \<Rightarrow> 'n json \<Rightarrow> string \<Rightarrow> 'n js_error + 'n json option" where
  "get_prop plat v k = (if v = JNull then Inl (TypeError_null plat k) else Inr (own_prop v k))"

text \<open>
  ToString, as \<^verbatim>\<open>new Error(detail)\<close> and \<^verbatim>\<open>regex.test(detail)\<close> apply it. An array joins
  the texts of its elements with commas, \<^verbatim>\<open>null\<close> elements as the empty text. An object
  made by \<^verbatim>\<open>JSON.parse\<close> inherits \<^verbatim>\<open>toString\<close> from \<^verbatim>\<open>Object.prototype\<close> unless it has a key
  of that name; the value under such a key is never callable, and the inherited
  \<^verbatim>\<open>valueOf\<close> returns the object itself, so the conversion then throws a TypeError. The
  first element of an array that throws makes the array throw.
\<close>

fun join_comma :: "string list \<Rightarrow> string" where
  "join_comma [] = []"
| "join_comma [s] = s"
| "join_comma (s # t # ss) = s @ '','' @ join_comma (t # ss)"

fun all_texts :: "('e + string) list \<Rightarrow> 'e + string list" where
  "all_texts [] = Inr []"
| "all_texts (r # rs) =
     (case r of
        Inl e \<Rightarrow> Inl e
      | Inr s \<Rightarrow> (case all_texts rs of Inl e \<Rightarrow> Inl e | Inr ss \<Rightarrow> Inr (s # ss)))"

fun ToString :: "'n platform \<Rightarrow> 'n json \<Rightarrow> 'n js_error + string" where
  "ToString plat JNull = Inr ''null''"
| "ToString plat (JBool b) = Inr (if b then ''true'' else ''false'')"
| "ToString plat (JNum n) = Inr (Number_toString plat n)"
| "ToString plat (JStr s) = Inr s"
| "ToString plat (JArr xs) =
     (case all_texts (map (\<lambda>x. if x = JNull then Inr [] else ToString plat x) xs) of
        Inl e \<Rightarrow> Inl e
      | Inr ss \<Rightarrow> Inr (join_comma ss))"
| "ToString plat (JObj kvs) =
     (if map_of kvs ''toString'' = None then Inr ''[object Object]''
      else Inl (TypeError_primitive plat))"

subsection \<open>String operations\<close>

definition starts_with :: "string \<Rightarrow> string \<Rightarrow> bool" where
  "starts_with p s = (take (length p) s = p)"

text \<open>The white space and line terminators \<^verbatim>\<open>trim\<close> removes, among the code units below 256.\<close>

definition is_space :: "char \<Rightarrow> bool" where
  "is_space c = (c \<in> set [CHR 0x09, CHR 0x0A, CHR 0x0B, CHR 0x0C, CHR 0x0D, CHR 0x20, CHR 0xA0])"

definition trim :: "string \<Rightarrow> string" where
  "trim s = rev (dropWhile is_space (rev (dropWhile is_space s)))"

text \<open>\<^verbatim>\<open>s.split('\n')\<close>: never empty, the last element is the text after the last newline.\<close>

fun split_nl :: "string \<Rightarrow> string list" where
  "split_nl [] = [[]]"
| "split_nl (c # cs) =
     (if c = CHR 0x0A then [] # split_nl cs
      else (case split_nl cs of [] \<Rightarrow> [[c]] | l # ls \<Rightarrow> (c # l) # ls))"

text \<open>
  \<^verbatim>\<open>/2FA|OTP/i.test(s)\<close>: without the unicode flag a code unit of the subject is compared
  through its upper-case form, and only the ASCII letters map onto ASCII letters.
\<close>

definition upper_ascii :: "char \<Rightarrow> char" where
  "upper_ascii c =
     (if (97::nat) \<le> of_char c \<and> of_char c \<le> (122::nat)
      then char_of (of_char c - (32::nat)) else c)"

definition starts_with_ci :: "string \<Rightarrow> string \<Rightarrow> bool" where
  "starts_with_ci p s = (map upper_ascii (take (length p) s) = p)"

fun test_2FA_OTP :: "string \<Rightarrow> bool" where
  "test_2FA_OTP [] = False"
| "test_2FA_OTP (c # cs) =
     (starts_with_ci ''2FA'' (c # cs) \<or> starts_with_ci ''OTP'' (c # cs) \<or> test_2FA_OTP cs)"

subsection \<open>\<^verbatim>\<open>StatusDisplay\<close>\<close>

text \<open>
  The progress handed to the component
  (\<^verbatim>\<open>frontend/src/components/StatusDisplay.tsx\<close>). A number is the rational value of a finite
  double. The quotient and the product of two doubles are doubles again, rounded by the
  platform, and are taken from it.
\<close>

record ProgressInfo =
  current :: rat
  total :: rat
  message :: string

record arith =
  double_div :: "rat \<Rightarrow> rat \<Rightarrow> rat"
  double_mul :: "rat \<Rightarrow> rat \<Rightarrow> rat"

text \<open>\<^verbatim>\<open>Math.round\<close>: the nearest whole number, the upper one of two that are equally near.\<close>

definition Math_round :: "rat \<Rightarrow> int" where
  "Math_round x = \<lfloor>x + 1 / 2\<rfloor>"

definition showBar :: "ProgressInfo option \<Rightarrow> bool" where
  "showBar prog = (case prog of None \<Rightarrow> False | Some p \<Rightarrow> 0 < total p)"

definition percent :: "arith \<Rightarrow> ProgressInfo option \<Rightarrow> int" where
  "percent ar prog =
     (case prog of
        None \<Rightarrow> 0
      | Some p \<Rightarrow>
          if showBar prog
          then min 100 (Math_round (double_mul ar (double_div ar (current p) (total p)) 100))
          else 0)"

text \<open>What is rendered: the status text, and the width of the bar when there is a bar.\<close>

record rendered =
  status_text :: string
  progress_bar :: "int option"

definition StatusDisplay :: "arith \<Rightarrow> string \<Rightarrow> ProgressInfo option \<Rightarrow> rendered" where
  "StatusDisplay ar stat prog =
     \<lparr>status_text = stat,
      progress_bar = (if showBar prog then Some (percent ar prog) else None)\<rparr>"

subsection \<open>The response of \<^verbatim>\<open>fetch\<close>\<close>

text \<open>
  The body is what the reader delivers: the decoded chunks in order, then either the end
  of the stream or a rejected read; \<open>None\<close> is the null body.
\<close>

datatype 'n stream_end = Done | Rejected "'n js_error"

record 'n response =
  ok :: bool
  status :: nat
  statusText :: string
  body :: "(string list \<times> 'n stream_end) option"

text \<open>
  \<^verbatim>\<open>response.json()\<close>, \<open>None\<close> when it rejects: the whole body is read and handed to
  \<^verbatim>\<open>JSON.parse\<close>. A null body is read as the empty text, which is not JSON, so the
  promise rejects.
\<close>

definition response_json :: "'n platform \<Rightarrow> 'n response \<Rightarrow> 'n json option" where
  "response_json plat response =
     (case body response of
        None \<Rightarrow> None
      | Some (chunks, fin) \<Rightarrow>
          (case fin of
             Done \<Rightarrow> if concat chunks = [] then None else JSON_parse plat (concat chunks)
           | Rejected e \<Rightarrow> None))"

subsection \<open>\<^verbatim>\<open>downloadInvoices\<close>\<close>

text \<open>The object handed to \<^verbatim>\<open>onProgress\<close>.\<close>

record 'n DownloadProgress =
  current :: "'n json"
  total :: "'n json"
  message :: "'n json"

text \<open>
  The variables of the loop that outlive a line: \<^verbatim>\<open>lastResult\<close> (\<open>None\<close> is its initial
  \<^verbatim>\<open>null\<close>, \<open>Some d\<close> a recorded payload) and the calls made to \<^verbatim>\<open>onProgress\<close> so far.
  A thrown value ends the function and is all that is kept of the run.
\<close>

record 'n dl_state =
  lastResult :: "'n json option"
  progress_calls :: "'n DownloadProgress list"

definition init_state :: "'n dl_state" where
  "init_state = \<lparr>lastResult = None, progress_calls = []\<rparr>"

text \<open>
  The body of the \<^verbatim>\<open>try\<close> block after \<^verbatim>\<open>JSON.parse\<close> has returned \<open>data\<close>
  (api.ts, lines 122 to 136). \<open>onP\<close> says whether an \<^verbatim>\<open>onProgress\<close> callback was passed.
  The text of \<^verbatim>\<open>detail\<close> is taken by the test of the pattern, when the flag is falsy, and
  by \<^verbatim>\<open>new Error\<close> in any case: where it cannot be taken, either of them throws the same
  TypeError.
\<close>

definition handle_event ::
  "('n::{zero,one,uminus}) platform \<Rightarrow> bool \<Rightarrow> string \<Rightarrow> 'n json \<Rightarrow> 'n dl_state
     \<Rightarrow> 'n js_error + 'n dl_state" where
  "handle_event plat onP eventType data st =
     (if eventType = ''progress'' \<and> onP then
        (case get_prop plat data ''current'' of
           Inl e \<Rightarrow> Inl e
         | Inr c \<Rightarrow>
        (case get_prop plat data ''total'' of
           Inl e \<Rightarrow> Inl e
         | Inr t \<Rightarrow>
        (case get_prop plat data ''message'' of
           Inl e \<Rightarrow> Inl e
         | Inr m \<Rightarrow>
             Inr (st\<lparr>progress_calls := progress_calls st @
                    [\<lparr>current = nullish_else c (JNum 0),
                      total = nullish_else t (JNum (- 1)),
                      message = nullish_else m (JStr [])\<rparr>]\<rparr>))))
      else if eventType = ''done'' then Inr (st\<lparr>lastResult := Some data\<rparr>)
      else if eventType = ''error'' then
        (case get_prop plat data ''detail'' of
           Inl e \<Rightarrow> Inl e
         | Inr d \<Rightarrow>
             let detail = or_else d (JStr ''Erreur'') in
        (case get_prop plat data ''requires_otp'' of
           Inl e \<Rightarrow> Inl e
         | Inr r \<Rightarrow>
        (case ToString plat detail of
           Inl e \<Rightarrow> Inl e
         | Inr text \<Rightarrow>
             let requiresOtp = or_else r (JBool (test_2FA_OTP text))
             in Inl (JsError ''Error'' text (Some requiresOtp)))))
      else Inr st)"

text \<open>
  The \<^verbatim>\<open>for\<close> loop over the complete lines of one chunk (lines 116 to 142), with the
  current value of \<^verbatim>\<open>eventType\<close>. A SyntaxError of \<^verbatim>\<open>JSON.parse\<close> is caught and the loop
  continues; any other thrown value leaves the function.
\<close>

fun for_lines ::
  "('n::{zero,one,uminus}) platform \<Rightarrow> bool \<Rightarrow> string \<Rightarrow> 'n dl_state \<Rightarrow> string list
     \<Rightarrow> 'n js_error + 'n dl_state" where
  "for_lines plat onP eventType st [] = Inr st"
| "for_lines plat onP eventType st (line # lines) =
     (if starts_with ''event: '' line then
        for_lines plat onP (trim (drop 7 line)) st lines
      else if starts_with ''data: '' line \<and> eventType \<noteq> [] then
        (case JSON_parse plat (drop 6 line) of
           None \<Rightarrow> for_lines plat onP eventType st lines
         | Some data \<Rightarrow>
             (case handle_event plat onP eventType data st of
                Inl e \<Rightarrow> Inl e
              | Inr st' \<Rightarrow> for_lines plat onP eventType st' lines))
      else for_lines plat onP eventType st lines)"

text \<open>
  The \<^verbatim>\<open>while\<close> loop (lines 109 to 143): each read appends the chunk to the buffer, the
  text after the last newline stays in the buffer, and \<^verbatim>\<open>eventType\<close> is declared anew,
  as the empty text, for the lines of this chunk. The result is the buffer and the state
  when the stream is done.
\<close>

fun read_loop ::
  "('n::{zero,one,uminus}) platform \<Rightarrow> bool \<Rightarrow> string \<Rightarrow> 'n dl_state \<Rightarrow> string list
     \<Rightarrow> 'n stream_end \<Rightarrow> 'n js_error + (string \<times> 'n dl_state)" where
  "read_loop plat onP buffer st [] fin =
     (case fin of Done \<Rightarrow> Inr (buffer, st) | Rejected e \<Rightarrow> Inl e)"
| "read_loop plat onP buffer st (v # rest) fin =
     (let lines = split_nl (buffer @ v);
          buffer' = (if lines = [] then [] else last lines)
      in case for_lines plat onP [] st (butlast lines) of
           Inl e \<Rightarrow> Inl e
         | Inr st' \<Rightarrow> read_loop plat onP buffer' st' rest fin)"

definition msg_empty_response :: string where
  "msg_empty_response = ''R'' @ [CHR 0xE9] @ ''ponse vide''"

definition msg_no_result :: string where
  "msg_no_result =
     ''T'' @ [CHR 0xE9] @ ''l'' @ [CHR 0xE9] @ ''chargement termin'' @ [CHR 0xE9]
       @ '' sans r'' @ [CHR 0xE9] @ ''sultat''"

text \<open>
  \<^verbatim>\<open>downloadInvoices\<close> from the point where \<^verbatim>\<open>fetch\<close> has settled (lines 89 to 148):
  \<open>Inl\<close> is the thrown value, \<open>Inr\<close> the returned \<^verbatim>\<open>lastResult\<close>.
\<close>

definition downloadInvoices ::
  "('n::{zero,one,uminus}) platform \<Rightarrow> bool \<Rightarrow> 'n js_error + 'n response
     \<Rightarrow> 'n js_error + 'n json" where
  "downloadInvoices plat onP fetched =
     (case fetched of
        Inl e \<Rightarrow> Inl e
      | Inr response \<Rightarrow>
          if \<not> ok response \<and> body response = None then
            (let errData = (case response_json plat response of None \<Rightarrow> JObj [] | Some v \<Rightarrow> v)
             in case get_prop plat errData ''detail'' of
                  Inl e \<Rightarrow> Inl e
                | Inr d \<Rightarrow>
                    let detail = or_else d (JStr (statusText response))
                    in case ToString plat detail of
                         Inl e \<Rightarrow> Inl e
                       | Inr text \<Rightarrow>
                           if status response = 401
                           then Inl (JsError ''Error'' text (Some (JBool True)))
                           else Inl (new_Error text))
          else
            (case body response of
               None \<Rightarrow> Inl (new_Error msg_empty_response)
             | Some (chunks, fin) \<Rightarrow>
                 (case read_loop plat onP [] init_state chunks fin of
                    Inl e \<Rightarrow> Inl e
                  | Inr (buffer, st) \<Rightarrow>
                      (case lastResult st of
                         None \<Rightarrow> Inl (new_Error msg_no_result)
                       | Some r \<Rightarrow>
                           if truthy r then Inr r else Inl (new_Error msg_no_result)))))"

subsection \<open>The session of \<^verbatim>\<open>App.tsx\<close>\<close>

record DownloadParams =
  provider :: "string option"
  max_invoices :: int
  year :: "int option"
  month :: "int option"
  months :: "int list option"
  date_start :: "string option"
  date_end :: "string option"
  force_redownload :: "bool option"

record OTPResponse =
  success :: bool
  message :: string
  requires_otp :: bool

text \<open>
  What the handlers do to the world outside the state cells, in the order they do it:
  aborting a controller, creating one, calling \<^verbatim>\<open>downloadInvoices\<close> with the parameters and
  the signal of a controller, calling \<^verbatim>\<open>submitOTP\<close> with a code.
\<close>

datatype action =
    Abort nat
  | Create nat
  | Download DownloadParams nat
  | SubmitOTP string

text \<open>
  The state cells of the component, the reference \<^verbatim>\<open>abortControllerRef\<close>, and the
  platform's side: the abort flag of each AbortController created so far (a controller is
  its index in \<open>controllers\<close>) and the log of actions.
\<close>

record 'n app =
  status :: string
  progress :: "'n DownloadProgress option"
  result :: "'n json option"
  loading :: bool
  error :: "string option"
  requiresOTP :: bool
  otpCode :: string
  otpError :: "string option"
  pendingDownload :: "DownloadParams option"
  abortControllerRef :: "nat option"
  controllers :: "bool list"
  log :: "action list"

text \<open>
  The backend: what \<^verbatim>\<open>fetch\<close> settles to for the \<open>n\<close>-th download request of the session,
  and what \<^verbatim>\<open>submitOTP\<close> settles to for the \<open>n\<close>-th code.
\<close>

record 'n backend =
  fetch_reply :: "nat \<Rightarrow> DownloadParams \<Rightarrow> 'n js_error + 'n response"
  otp_reply :: "nat \<Rightarrow> string \<Rightarrow> 'n js_error + OTPResponse"

fun is_Download :: "action \<Rightarrow> bool" where
  "is_Download (Download p c) = True"
| "is_Download a = False"

fun is_SubmitOTP :: "action \<Rightarrow> bool" where
  "is_SubmitOTP (SubmitOTP c) = True"
| "is_SubmitOTP a = False"

text \<open>\<^verbatim>\<open>s.includes(sub)\<close>.\<close>

fun includes_str :: "string \<Rightarrow> string \<Rightarrow> bool" where
  "includes_str [] sub = (sub = [])"
| "includes_str (c # cs) sub = (starts_with sub (c # cs) \<or> includes_str cs sub)"

text \<open>\<^verbatim>\<open>s || t\<close> on strings.\<close>

definition str_or :: "string \<Rightarrow> string \<Rightarrow> string" where
  "str_or s t = (if s = [] then t else s)"

definition truthy_opt :: "('n::zero) json option \<Rightarrow> bool" where
  "truthy_opt v = (case v of None \<Rightarrow> False | Some x \<Rightarrow> truthy x)"

text \<open>
  The horizontal ellipsis U+2026 that ends the connecting status lies beyond the 8-bit
  characters; it stands here as its three UTF-8 bytes. The status is only displayed.
\<close>

definition status_connecting :: string where
  "status_connecting = ''Connexion en cours'' @ [CHR 0xE2, CHR 0x80, CHR 0xA6]"

definition status_done :: string where
  "status_done = ''T'' @ [CHR 0xE9] @ ''l'' @ [CHR 0xE9] @ ''chargement termin'' @ [CHR 0xE9]"

definition status_cancelled :: string where
  "status_cancelled = ''T'' @ [CHR 0xE9] @ ''l'' @ [CHR 0xE9] @ ''chargement annul'' @ [CHR 0xE9]"

definition msg_otp_needed :: string where
  "msg_otp_needed =
     ''Code 2FA requis. Veuillez saisir le code re'' @ [CHR 0xE7]
       @ ''u par SMS, email ou application.''"

definition msg_unreachable :: string where
  "msg_unreachable =
     ''Impossible de joindre le backend. V'' @ [CHR 0xE9] @ ''rifiez qu'' @ [CHR 0x27]
       @ ''il est d'' @ [CHR 0xE9] @ ''marr'' @ [CHR 0xE9] @ '' (http://localhost:8001).''"

definition msg_timeout :: string where
  "msg_timeout =
     ''T'' @ [CHR 0xE9] @ ''l'' @ [CHR 0xE9] @ ''chargement interrompu (timeout). R''
       @ [CHR 0xE9] @ ''duisez la p'' @ [CHR 0xE9] @ ''riode ou le nombre de factures.''"

definition status_network :: string where
  "status_network = ''Erreur r'' @ [CHR 0xE9] @ ''seau''"

definition status_error :: string where
  "status_error = ''Erreur lors du t'' @ [CHR 0xE9] @ ''l'' @ [CHR 0xE9] @ ''chargement''"

definition msg_code_too_short :: string where
  "msg_code_too_short = ''Le code doit contenir au moins 4 caract'' @ [CHR 0xE8] @ ''res''"

definition status_otp_accepted :: string where
  "status_otp_accepted = ''Code OTP accept'' @ [CHR 0xE9]"

definition msg_otp_wrong :: string where
  "msg_otp_wrong = ''Code OTP incorrect ou expir'' @ [CHR 0xE9]"

text \<open>\<^verbatim>\<open>abortControllerRef.current?.abort()\<close>.\<close>

definition abort_current :: "'n app \<Rightarrow> 'n app" where
  "abort_current w =
     (case abortControllerRef w of
        None \<Rightarrow> w
      | Some c \<Rightarrow> w\<lparr>controllers := (controllers w)[c := True], log := log w @ [Abort c]\<rparr>)"

text \<open>
  \<^verbatim>\<open>handleDownload\<close> up to the call of \<^verbatim>\<open>downloadInvoices\<close> (App.tsx, lines 66 to 81): the
  new controller and the new state.
\<close>

definition handleDownload_begin :: "DownloadParams \<Rightarrow> 'n app \<Rightarrow> nat \<times> 'n app" where
  "handleDownload_begin params w =
     (let w1 = abort_current w;
          controller = length (controllers w1);
          w2 = w1\<lparr>controllers := controllers w1 @ [False], log := log w1 @ [Create controller]\<rparr>;
          w3 = w2\<lparr>abortControllerRef := Some controller\<rparr>;
          w4 = w3\<lparr>loading := True, error := None, result := None, progress := None,
                  requiresOTP := False, otpError := None, status := status_connecting\<rparr>
      in (controller, w4\<lparr>log := log w4 @ [Download params controller]\<rparr>))"

text \<open>
  \<^verbatim>\<open>handleDownload\<close> from the point where \<^verbatim>\<open>downloadInvoices\<close> has settled (lines 87 to
  119). The \<^verbatim>\<open>onProgress\<close> callback writes the status and progress cells only, and every
  exit writes both again, so its calls leave no trace in the state reached here.
\<close>

definition handleDownload_end ::
  "DownloadParams \<Rightarrow> nat \<Rightarrow> ('n::zero) js_error + 'n json \<Rightarrow> 'n app \<Rightarrow> 'n app" where
  "handleDownload_end params controller outcome w =
     (let w1 =
        (case outcome of
           Inr response \<Rightarrow>
             w\<lparr>result := Some response, status := status_done, progress := None,
               requiresOTP := False\<rparr>
         | Inl err \<Rightarrow>
             (let w0 = w\<lparr>progress := None\<rparr> in
              if err_name err = ''AbortError'' then
                w0\<lparr>status := status_cancelled, error := None\<rparr>
              else if truthy_opt (err_requiresOtp err) then
                w0\<lparr>requiresOTP := True, pendingDownload := Some params,
                   error := Some (str_or (err_message err) msg_otp_needed),
                   status := ''Code 2FA requis''\<rparr>
              else if includes_str (err_message err) ''Failed to fetch'' then
                w0\<lparr>error := Some msg_unreachable, status := status_network\<rparr>
              else if includes_str (err_message err) ''timeout'' then
                w0\<lparr>error := Some (str_or (err_message err) msg_timeout), status := ''Timeout''\<rparr>
              else
                w0\<lparr>error := Some (err_message err), status := status_error\<rparr>));
          w2 = w1\<lparr>loading := False\<rparr>
      in if abortControllerRef w2 = Some controller then w2\<lparr>abortControllerRef := None\<rparr>
         else w2)"

text \<open>
  \<^verbatim>\<open>handleDownload\<close>, run to its end: the request is the next one the backend answers,
  and \<^verbatim>\<open>downloadInvoices\<close> is called with an \<^verbatim>\<open>onProgress\<close> callback.
\<close>

definition handleDownload ::
  "('n::{zero,one,uminus}) platform \<Rightarrow> 'n backend \<Rightarrow> DownloadParams \<Rightarrow> 'n app \<Rightarrow> 'n app" where
  "handleDownload plat srv params w =
     (let n = length (filter is_Download (log w));
          (controller, w1) = handleDownload_begin params w;
          outcome = downloadInvoices plat True (fetch_reply srv n params)
      in handleDownload_end params controller outcome w1)"

definition handleCancelDownload :: "'n app \<Rightarrow> 'n app" where
  "handleCancelDownload w = abort_current w"

text \<open>
  \<^verbatim>\<open>handleSubmitOTP\<close> (lines 127 to 159). The handler reads \<^verbatim>\<open>otpCode\<close> and
  \<^verbatim>\<open>pendingDownload\<close> as they were when it was called.
\<close>

definition handleSubmitOTP ::
  "('n::{zero,one,uminus}) platform \<Rightarrow> 'n backend \<Rightarrow> 'n app \<Rightarrow> 'n app" where
  "handleSubmitOTP plat srv w =
     (if otpCode w = [] \<or> length (otpCode w) < 4 then
        w\<lparr>otpError := Some msg_code_too_short\<rparr>
      else
        (let n = length (filter is_SubmitOTP (log w));
             w1 = w\<lparr>otpError := None, loading := True\<rparr>;
             w2 = w1\<lparr>log := log w1 @ [SubmitOTP (otpCode w)]\<rparr>;
             w3 =
               (case otp_reply srv n (otpCode w) of
                  Inr response \<Rightarrow>
                    if success response \<and> \<not> requires_otp response then
                      (let w4 = w2\<lparr>requiresOTP := False, status := status_otp_accepted,
                                    otpCode := []\<rparr>
                       in case pendingDownload w of
                            Some p \<Rightarrow> (handleDownload plat srv p w4)\<lparr>pendingDownload := None\<rparr>
                          | None \<Rightarrow> w4)
                    else
                      w2\<lparr>otpError := Some (str_or (message response) msg_otp_wrong),
                         requiresOTP := requires_otp response\<rparr>
                | Inl err \<Rightarrow> w2\<lparr>otpError := Some (err_message err)\<rparr>)
         in w3\<lparr>loading := False\<rparr>))"

subsection \<open>The decoder inside the loop\<close>

text \<open>
  The specification speaks of a decoder that yields pairs of an event type and a payload.
  In the code a pair is yielded where the \<^verbatim>\<open>try\<close> block is entered: \<open>event_pairs\<close> lists,
  for the lines of one chunk, the values of \<^verbatim>\<open>eventType\<close> and \<^verbatim>\<open>line.slice(6)\<close> at each
  entry, and \<open>stream_pairs\<close> does so for the chunks of a stream. \<open>dispatch\<close> is what the
  \<^verbatim>\<open>try\<close> and \<^verbatim>\<open>catch\<close> blocks do with the pairs in turn. The lemmas \<open>for_lines_dispatch\<close>
  and \<open>read_loop_dispatch\<close> below show that the loops are these two put together.
\<close>

fun event_pairs :: "string \<Rightarrow> string list \<Rightarrow> (string \<times> string) list" where
  "event_pairs eventType [] = []"
| "event_pairs eventType (line # lines) =
     (if starts_with ''event: '' line then event_pairs (trim (drop 7 line)) lines
      else if starts_with ''data: '' line \<and> eventType \<noteq> [] then
        (eventType, drop 6 line) # event_pairs eventType lines
      else event_pairs eventType lines)"

fun dispatch ::
  "('n::{zero,one,uminus}) platform \<Rightarrow> bool \<Rightarrow> 'n dl_state \<Rightarrow> (string \<times> string) list
     \<Rightarrow> 'n js_error + 'n dl_state" where
  "dispatch plat onP st [] = Inr st"
| "dispatch plat onP st ((eventType, payload) # ps) =
     (case JSON_parse plat payload of
        None \<Rightarrow> dispatch plat onP st ps
      | Some data \<Rightarrow>
          (case handle_event plat onP eventType data st of
             Inl e \<Rightarrow> Inl e
           | Inr st' \<Rightarrow> dispatch plat onP st' ps))"

fun stream_pairs :: "string \<Rightarrow> string list \<Rightarrow> (string \<times> string) list" where
  "stream_pairs buffer [] = []"
| "stream_pairs buffer (v # rest) =
     event_pairs [] (butlast (split_nl (buffer @ v)))
       @ stream_pairs (last (split_nl (buffer @ v))) rest"

fun final_buffer :: "string \<Rightarrow> string list \<Rightarrow> string" where
  "final_buffer buffer [] = buffer"
| "final_buffer buffer (v # rest) = final_buffer (last (split_nl (buffer @ v))) rest"

subsection \<open>Downloads in flight\<close>

text \<open>
  Between the two halves of \<^verbatim>\<open>handleDownload\<close> the component is free to run other
  handlers. \<open>session w fl\<close> holds of the states \<open>w\<close> the component can reach that way, \<open>fl\<close>
  being the controllers of the calls of \<^verbatim>\<open>downloadInvoices\<close> that have not settled yet. The
  last rule stands for every handler step that leaves the reference and the controllers
  alone (typing a code, the steps of \<^verbatim>\<open>handleSubmitOTP\<close> around its download).
\<close>

inductive session :: "('n::zero) app \<Rightarrow> nat list \<Rightarrow> bool" where
  mounted: "abortControllerRef w = None \<Longrightarrow> session w []"
| started: "session w fl \<Longrightarrow> handleDownload_begin params w = (c, w') \<Longrightarrow> session w' (c # fl)"
| settled: "session w fl \<Longrightarrow> c \<in> set fl \<Longrightarrow>
     session (handleDownload_end params c outcome w) (remove1 c fl)"
| cancelled: "session w fl \<Longrightarrow> session (handleCancelDownload w) fl"
| other: "session w fl \<Longrightarrow> abortControllerRef w' = abortControllerRef w \<Longrightarrow>
     controllers w' = controllers w \<Longrightarrow> session w' fl"

subsection \<open>Sample inputs\<close>

text \<open>
  A platform for the examples: \<open>sample_parse\<close> is \<^verbatim>\<open>JSON.parse\<close> on the payloads the
  examples use (with whole numbers), and takes any other text as malformed.
\<close>

definition payload_done :: string where
  "payload_done = ''{\"success\":true,\"message\":\"ok\",\"count\":1,\"files\":[\"a.pdf\"]}''"

definition payload_progress :: string where
  "payload_progress = ''{\"current\":1,\"total\":2,\"message\":\"facture 1\"}''"

definition payload_flag_false :: string where
  "payload_flag_false = ''{\"detail\":\"2FA code expired\",\"requires_otp\":false}''"

definition payload_flag_true :: string where
  "payload_flag_true = ''{\"detail\":\"Code requis\",\"requires_otp\":true}''"

definition payload_plain :: string where
  "payload_plain = ''{\"detail\":\"Identifiants invalides\"}''"

definition sample_parse :: "string \<Rightarrow> int json option" where
  "sample_parse s =
     (if s = payload_done then
        Some (JObj [(''success'', JBool True), (''message'', JStr ''ok''), (''count'', JNum 1),
                    (''files'', JArr [JStr ''a.pdf''])])
      else if s = payload_progress then
        Some (JObj [(''current'', JNum 1), (''total'', JNum 2), (''message'', JStr ''facture 1'')])
      else if s = payload_flag_false then
        Some (JObj [(''detail'', JStr ''2FA code expired''), (''requires_otp'', JBool False)])
      else if s = payload_flag_true then
        Some (JObj [(''detail'', JStr ''Code requis''), (''requires_otp'', JBool True)])
      else if s = payload_plain then
        Some (JObj [(''detail'', JStr ''Identifiants invalides'')])
      else if s = ''null'' then Some JNull
      else None)"

fun show_nat :: "nat \<Rightarrow> string" where
  "show_nat n =
     (if n < 10 then [char_of (48 + n)] else show_nat (n div 10) @ [char_of (48 + n mod 10)])"

definition show_int :: "int \<Rightarrow> string" where
  "show_int i = (if i < 0 then ''-'' @ show_nat (nat (- i)) else show_nat (nat i))"

definition sample_platform :: "int platform" where
  "sample_platform =
     \<lparr>JSON_parse = sample_parse,
      Number_toString = show_int,
      null_read_message =
        (\<lambda>k. ''Cannot read properties of null (reading '' @ [CHR 0x27] @ k @ [CHR 0x27] @ '')''),
      to_primitive_message = ''Cannot convert object to primitive value''\<rparr>"

definition sample_response :: "string list \<Rightarrow> int response" where
  "sample_response chunks =
     \<lparr>ok = True, status = 200, statusText = ''OK'', body = Some (chunks, Done)\<rparr>"



definition sample_params :: DownloadParams where
  "sample_params =
     \<lparr>provider = None, max_invoices = 50, year = Some 2024, month = None, months = None,
      date_start = None, date_end = None, force_redownload = None\<rparr>"

text \<open>
  The arithmetic of doubles for the examples: the exact result rounded to the nearest
  number with 53 significant bits, to the even one of two that are equally near. Overflow
  and subnormal numbers are left out.
\<close>

function bit_length :: "int \<Rightarrow> int" where
  "bit_length n = (if n \<le> 0 then 0 else 1 + bit_length (n div 2))"
  by pat_completeness auto
termination
  by (relation "measure nat") auto

definition pow2 :: "int \<Rightarrow> rat" where
  "pow2 k = (if 0 \<le> k then 2 ^ nat k else 1 / 2 ^ nat (- k))"

text \<open>For a positive \<open>x\<close>, the \<open>e\<close> with \<open>2 ^ e \<le> x < 2 ^ (e + 1)\<close>.\<close>

definition binary_exponent :: "rat \<Rightarrow> int" where
  "binary_exponent x =
     (let (p, q) = quotient_of x;
          d = bit_length p - bit_length q
      in if pow2 d \<le> x then d else d - 1)"

definition round_half_even :: "rat \<Rightarrow> int" where
  "round_half_even y =
     (let f = \<lfloor>y\<rfloor>; r = y - of_int f
      in if r < 1 / 2 then f else if 1 / 2 < r then f + 1 else if even f then f else f + 1)"

definition round_double :: "rat \<Rightarrow> rat" where
  "round_double x =
     (if x = 0 then 0
      else (let u = pow2 (binary_exponent \<bar>x\<bar> - 52)
            in of_int (round_half_even (x / u)) * u))"

definition sample_arith :: arith where
  "sample_arith =
     \<lparr>double_div = (\<lambda>a b. round_double (a / b)),
      double_mul = (\<lambda>a b. round_double (a * b))\<rparr>"

definition progress_23_of_40 :: ProgressInfo where
  "progress_23_of_40 =
     \<lparr>ProgressInfo.current = 23, ProgressInfo.total = 40,
      ProgressInfo.message = ''facture 23''\<rparr>"

definition progress_1_of_2 :: ProgressInfo where
  "progress_1_of_2 =
     \<lparr>ProgressInfo.current = 1, ProgressInfo.total = 2,
      ProgressInfo.message = ''facture 1''\<rparr>"

definition progress_3_of_2 :: ProgressInfo where
  "progress_3_of_2 =
     \<lparr>ProgressInfo.current = 3, ProgressInfo.total = 2,
      ProgressInfo.message = ''facture 3''\<rparr>"

definition progress_unknown_total :: ProgressInfo where
  "progress_unknown_total =
     \<lparr>ProgressInfo.current = 3, ProgressInfo.total = - 1,
      ProgressInfo.message = ''facture 3''\<rparr>"

text \<open>The state cells as the component mounts them (App.tsx, lines 24 to 34).\<close>

definition initial_app :: "int app" where
  "initial_app =
     \<lparr>status = ''V'' @ [CHR 0xE9] @ ''rification...'', progress = None, result = None,
      loading = False, error = None, requiresOTP = False, otpCode = [], otpError = None,
      pendingDownload = None, abortControllerRef = None, controllers = [], log = []\<rparr>"

text \<open>
  A backend that answers every download with a stream asking for a code, and accepts
  every code.
\<close>

definition sample_backend :: "int backend" where
  "sample_backend =
     \<lparr>fetch_reply = (\<lambda>n p. Inr (sample_response
        [''event: error\<newline>data: '' @ payload_flag_true @ ''\<newline>''])),
      otp_reply = (\<lambda>n code. Inr \<lparr>success = True, message = ''ok'', requires_otp = False\<rparr>)\<rparr>"

text \<open>
  A session against that backend: a download, a first code, and a second code after the
  resumed download has asked for one again.
\<close>

definition otp_round_1 :: "int app" where
  "otp_round_1 = handleDownload sample_platform sample_backend sample_params initial_app"

definition otp_round_2 :: "int app" where
  "otp_round_2 =
     handleSubmitOTP sample_platform sample_backend (otp_round_1\<lparr>otpCode := ''123456''\<rparr>)"

definition otp_round_3 :: "int app" where
  "otp_round_3 =
     handleSubmitOTP sample_platform sample_backend (otp_round_2\<lparr>otpCode := ''654321''\<rparr>)"

text \<open>A state with a download in flight, and the start of a second download from it.\<close>

definition one_in_flight :: "int app" where
  "one_in_flight = snd (handleDownload_begin sample_params initial_app)"

definition two_in_flight :: "int app" where
  "two_in_flight = snd (handleDownload_begin sample_params one_in_flight)"

section \<open>Properties\<close>

subsection \<open>Splitting the buffer into lines\<close>

lemma split_nl_not_Nil: "split_nl s \<noteq> []"
  by (induction s) (auto split: list.splits)

lemma split_nl_append_nl: "split_nl (a @ CHR 0x0A # b) = split_nl a @ split_nl b"
  by (induction a) (auto split: list.splits simp: split_nl_not_Nil)

lemma split_nl_no_nl: "CHR 0x0A \<notin> set t \<Longrightarrow> split_nl t = [t]"
  by (induction t) auto

lemma split_nl_append_no_nl:
  "CHR 0x0A \<notin> set t \<Longrightarrow> split_nl (a @ t) = butlast (split_nl a) @ [last (split_nl a) @ t]"
  by (induction a) (auto split: list.splits simp: split_nl_not_Nil split_nl_no_nl)

text \<open>The buffer after a read is the text after the last newline received so far.\<close>

lemma last_split_nl: "last (split_nl s) = rev (takeWhile (\<lambda>c. c \<noteq> CHR 0x0A) (rev s))"
proof (induction s rule: rev_induct)
  case Nil
  then show ?case by simp
next
  case (snoc x xs)
  show ?case
  proof (cases "x = CHR 0x0A")
    case True
    have "split_nl (xs @ [x]) = split_nl xs @ [[]]"
      using split_nl_append_nl [of xs "[]"] True by simp
    then show ?thesis using True by simp
  next
    case False
    then have "split_nl (xs @ [x]) = butlast (split_nl xs) @ [last (split_nl xs) @ [x]]"
      using split_nl_append_no_nl [of "[x]" xs] by simp
    then show ?thesis using False snoc by simp
  qed
qed

lemma last_split_nl_buffer:
  "last (split_nl (last (split_nl a) @ c)) = last (split_nl (a @ c))"
proof (cases "CHR 0x0A \<in> set c")
  case True
  then show ?thesis by (simp add: last_split_nl takeWhile_append1 [where x = "CHR 0x0A"])
next
  case False
  then have "takeWhile (\<lambda>x. x \<noteq> CHR 0x0A) (rev c @ ys)
                 = rev c @ takeWhile (\<lambda>x. x \<noteq> CHR 0x0A) ys" for ys
    by (intro takeWhile_append2) auto
  then show ?thesis by (simp add: last_split_nl)
qed

lemma final_buffer_last:
  "final_buffer (last (split_nl a)) chunks = last (split_nl (a @ concat chunks))"
proof (induction chunks arbitrary: a)
  case Nil
  show ?case using last_split_nl_buffer [of a "[]"] by simp
next
  case (Cons v chunks)
  have "final_buffer (last (split_nl a)) (v # chunks)
          = final_buffer (last (split_nl (a @ v))) chunks"
    by (simp add: last_split_nl_buffer)
  then show ?case using Cons [of "a @ v"] by simp
qed

lemma final_buffer_eq: "final_buffer [] chunks = last (split_nl (concat chunks))"
  using final_buffer_last [of "[]" chunks] by simp

lemma stream_pairs_append:
  "stream_pairs buffer (cs @ ds) =
     stream_pairs buffer cs @ stream_pairs (final_buffer buffer cs) ds"
  by (induction cs arbitrary: buffer) auto

lemma final_buffer_append:
  "final_buffer buffer (cs @ ds) = final_buffer (final_buffer buffer cs) ds"
  by (induction cs arbitrary: buffer) auto

lemma last_split_nl_no_nl: "CHR 0x0A \<notin> set (last (split_nl s))"
proof -
  have "x \<noteq> CHR 0x0A" if "x \<in> set (takeWhile (\<lambda>c. c \<noteq> CHR 0x0A) (rev s))" for x
    using set_takeWhileD [OF that] by simp
  then show ?thesis by (auto simp: last_split_nl)
qed

text \<open>Chunks without a newline only grow the buffer.\<close>

lemma chunks_without_newline:
  "CHR 0x0A \<notin> set b \<Longrightarrow> \<forall>u\<in>set ts. CHR 0x0A \<notin> set u \<Longrightarrow>
     stream_pairs b ts = [] \<and> final_buffer b ts = b @ concat ts"
proof (induction ts arbitrary: b)
  case Nil
  then show ?case by simp
next
  case (Cons u ts)
  then have "CHR 0x0A \<notin> set (b @ u)" by simp
  then have s: "split_nl (b @ u) = [b @ u]" by (rule split_nl_no_nl)
  have "stream_pairs (b @ u) ts = [] \<and> final_buffer (b @ u) ts = (b @ u) @ concat ts"
    using Cons by (intro Cons.IH) simp_all
  then show ?case by (simp add: s)
qed

subsection \<open>The loops are the decoder followed by the dispatch\<close>

lemma for_lines_dispatch:
  "for_lines plat onP et st ls = dispatch plat onP st (event_pairs et ls)"
  by (induction ls arbitrary: et st) (auto split: option.splits sum.splits)

lemma dispatch_append:
  "dispatch plat onP st (ps @ qs) =
     (case dispatch plat onP st ps of Inl e \<Rightarrow> Inl e | Inr st' \<Rightarrow> dispatch plat onP st' qs)"
  by (induction ps arbitrary: st) (auto split: option.splits sum.splits)

lemma read_loop_dispatch:
  "read_loop plat onP buffer st chunks fin =
     (case dispatch plat onP st (stream_pairs buffer chunks) of
        Inl e \<Rightarrow> Inl e
      | Inr st' \<Rightarrow>
          (case fin of Done \<Rightarrow> Inr (final_buffer buffer chunks, st') | Rejected e \<Rightarrow> Inl e))"
  by (induction chunks arbitrary: buffer st)
     (auto simp: Let_def split_nl_not_Nil for_lines_dispatch dispatch_append
           split: sum.splits stream_end.splits)

lemma data_not_event: "starts_with ''data: '' l \<Longrightarrow> \<not> starts_with ''event: '' l"
  by (cases l) (auto simp: starts_with_def)

lemma for_lines_skip:
  assumes "starts_with ''data: '' l" and "JSON_parse plat (drop 6 l) = None"
  shows "for_lines plat onP et st (pre @ l # post) = for_lines plat onP et st (pre @ post)"
  using assms
  by (induction pre arbitrary: et st) (auto simp: data_not_event split: option.splits sum.splits)

lemma handle_event_lastResult:
  "handle_event plat onP et d st = Inr st' \<Longrightarrow>
     lastResult st' = (if et = ''done'' then Some d else lastResult st)"
  by (auto simp: handle_event_def get_prop_def Let_def split: if_splits sum.splits)

lemma dispatch_lastResult:
  "dispatch plat onP st ps = Inr st' \<Longrightarrow>
     lastResult st' = lastResult st \<or>
     (\<exists>p d. (''done'', p) \<in> set ps \<and> JSON_parse plat p = Some d \<and> lastResult st' = Some d)"
proof (induction ps arbitrary: st)
  case Nil
  then show ?case by simp
next
  case (Cons a ps)
  obtain et p where a: "a = (et, p)" by (cases a)
  show ?case
  proof (cases "JSON_parse plat p")
    case None
    then show ?thesis using Cons a by auto
  next
    case (Some d)
    then obtain st1 where h: "handle_event plat onP et d st = Inr st1"
      and r: "dispatch plat onP st1 ps = Inr st'"
      using Cons.prems a by (auto split: sum.splits)
    from Cons.IH [OF r] handle_event_lastResult [OF h] Some a show ?thesis
      by (auto split: if_splits)
  qed
qed

lemma handle_event_error:
  assumes "data \<noteq> JNull"
    and "ToString plat (or_else (own_prop data ''detail'') (JStr ''Erreur'')) = Inr text"
  shows "handle_event plat onP ''error'' data st =
           Inl (JsError ''Error'' text
                 (Some (or_else (own_prop data ''requires_otp'') (JBool (test_2FA_OTP text)))))"
  using assms by (simp add: handle_event_def get_prop_def Let_def)

lemma truthy_or_else: "truthy (or_else a b) \<longleftrightarrow> truthy_opt a \<or> truthy b"
  by (auto simp: or_else_def truthy_opt_def split: option.splits)

subsection \<open>Claims about the stream\<close>

text \<open>
  C8. A \<^verbatim>\<open>data:\<close> line whose payload \<^verbatim>\<open>JSON.parse\<close> rejects is skipped without a trace: the
  \<^verbatim>\<open>for\<close> loop gives the same result, from any event type and state, as on the lines
  without it, and a read that completes such a line goes on with the rest of its lines and
  with the following chunks.
\<close>

theorem malformed_payload_skipped:
  assumes "starts_with ''data: '' l" and "JSON_parse plat (drop 6 l) = None"
  shows "for_lines plat onP et st (pre @ l # post) = for_lines plat onP et st (pre @ post) \<and>
         (split_nl (buffer @ v) = pre @ l # post \<and> post \<noteq> [] \<longrightarrow>
            read_loop plat onP buffer st (v # rest) fin =
              (case for_lines plat onP [] st (pre @ butlast post) of
                 Inl e \<Rightarrow> Inl e
               | Inr st' \<Rightarrow> read_loop plat onP (last post) st' rest fin))"
proof (intro conjI impI)
  show "for_lines plat onP et st (pre @ l # post) = for_lines plat onP et st (pre @ post)"
    using assms by (rule for_lines_skip)
next
  assume a: "split_nl (buffer @ v) = pre @ l # post \<and> post \<noteq> []"
  then have b: "butlast (split_nl (buffer @ v)) = pre @ l # butlast post"
    and c: "last (split_nl (buffer @ v)) = last post"
    by (simp_all add: butlast_append)
  have "for_lines plat onP [] st (pre @ l # butlast post)
          = for_lines plat onP [] st (pre @ butlast post)"
    using assms by (rule for_lines_skip)
  then show "read_loop plat onP buffer st (v # rest) fin =
              (case for_lines plat onP [] st (pre @ butlast post) of
                 Inl e \<Rightarrow> Inl e
               | Inr st' \<Rightarrow> read_loop plat onP (last post) st' rest fin)"
    using a b c by (auto simp: Let_def split: sum.splits)
qed

text \<open>
  An instance: a malformed line between a \<^verbatim>\<open>progress\<close> event line and a well-formed
  payload; the well-formed payload still reaches \<^verbatim>\<open>onProgress\<close>.
\<close>

theorem malformed_payload_skipped_witness:
  "starts_with ''data: '' ''data: {oops'' \<and>
   JSON_parse sample_platform (drop 6 ''data: {oops'') = None \<and>
   split_nl ([] @ (''event: progress\<newline>data: {oops\<newline>data: '' @ payload_progress @ ''\<newline>''))
     = [''event: progress''] @ ''data: {oops'' # [''data: '' @ payload_progress, []] \<and>
   [''data: '' @ payload_progress, []] \<noteq> [] \<and>
   for_lines sample_platform True [] init_state
       ([''event: progress''] @ ''data: {oops'' # [''data: '' @ payload_progress])
     = Inr \<lparr>lastResult = None,
            progress_calls = [\<lparr>current = JNum 1, total = JNum 2, message = JStr ''facture 1''\<rparr>]\<rparr> \<and>
   read_loop sample_platform True []  init_state
       [''event: progress\<newline>data: {oops\<newline>data: '' @ payload_progress @ ''\<newline>''] Done
     = Inr ([], \<lparr>lastResult = None,
            progress_calls = [\<lparr>current = JNum 1, total = JNum 2, message = JStr ''facture 1''\<rparr>]\<rparr>)"
proof -
  let ?v = "''event: progress\<newline>data: {oops\<newline>data: '' @ payload_progress @ ''\<newline>''"
  let ?pre = "[''event: progress'']"
  let ?post = "[''data: '' @ payload_progress, []]"
  have h1: "starts_with ''data: '' ''data: {oops''"
    by (simp add: starts_with_def)
  have h2: "JSON_parse sample_platform (drop 6 ''data: {oops'') = None"
    by code_simp
  have h3: "split_nl ([] @ ?v) = ?pre @ ''data: {oops'' # ?post \<and> ?post \<noteq> []"
    by code_simp
  have e1: "for_lines sample_platform True [] init_state (?pre @ [''data: '' @ payload_progress])
     = Inr \<lparr>lastResult = None,
            progress_calls = [\<lparr>current = JNum 1, total = JNum 2, message = JStr ''facture 1''\<rparr>]\<rparr>"
    by code_simp
  have e2: "read_loop sample_platform True [] init_state [] Done = Inr ([], init_state)"
    by simp
  note t = malformed_payload_skipped [OF h1 h2, where onP = True and st = init_state
      and pre = ?pre and buffer = "[]" and v = ?v and rest = "[]" and fin = Done]
  from t [where post = "[''data: '' @ payload_progress]" and et = "[]"] e1
  have c1: "for_lines sample_platform True [] init_state
       (?pre @ ''data: {oops'' # [''data: '' @ payload_progress])
     = Inr \<lparr>lastResult = None,
            progress_calls = [\<lparr>current = JNum 1, total = JNum 2, message = JStr ''facture 1''\<rparr>]\<rparr>"
    by simp
  from t [where post = ?post] h3 e1
  have c2: "read_loop sample_platform True [] init_state [?v] Done
     = Inr ([], \<lparr>lastResult = None,
            progress_calls = [\<lparr>current = JNum 1, total = JNum 2, message = JStr ''facture 1''\<rparr>]\<rparr>)"
    by simp
  show ?thesis using h1 h2 h3 c1 c2 by blast
qed

text \<open>
  C5. When the stream reaches its end and none of the pairs handed to the \<^verbatim>\<open>try\<close> block was
  a \<^verbatim>\<open>done\<close> event with a payload that parses, so that nothing was ever recorded in
  \<^verbatim>\<open>lastResult\<close>, the operation throws the error of the missing result. When the operation
  returns a value, the loop ended with that value in \<^verbatim>\<open>lastResult\<close>, and it is the parsed
  payload of a \<^verbatim>\<open>done\<close> event of the stream.
\<close>

theorem no_done_payload_fails:
  assumes "body resp = Some (chunks, fin)"
  shows "(read_loop plat onP [] init_state chunks fin = Inr (b, st) \<and>
          (\<forall>(et, p) \<in> set (stream_pairs [] chunks). et = ''done'' \<longrightarrow> JSON_parse plat p = None)
            \<longrightarrow> downloadInvoices plat onP (Inr resp) = Inl (new_Error msg_no_result)) \<and>
         (downloadInvoices plat onP (Inr resp) = Inr r
            \<longrightarrow> (\<exists>b' st' p. read_loop plat onP [] init_state chunks fin = Inr (b', st') \<and>
                   lastResult st' = Some r \<and> (''done'', p) \<in> set (stream_pairs [] chunks) \<and>
                   JSON_parse plat p = Some r))"
proof (intro conjI impI)
  assume a: "read_loop plat onP [] init_state chunks fin = Inr (b, st) \<and>
          (\<forall>(et, p) \<in> set (stream_pairs [] chunks). et = ''done'' \<longrightarrow> JSON_parse plat p = None)"
  then have "dispatch plat onP init_state (stream_pairs [] chunks) = Inr st"
    by (auto simp: read_loop_dispatch split: sum.splits stream_end.splits)
  from dispatch_lastResult [OF this] a have "lastResult st = None"
    by (auto simp: init_state_def)
  then show "downloadInvoices plat onP (Inr resp) = Inl (new_Error msg_no_result)"
    using a assms by (simp add: downloadInvoices_def)
next
  assume a: "downloadInvoices plat onP (Inr resp) = Inr r"
  then obtain b' st' where l: "read_loop plat onP [] init_state chunks fin = Inr (b', st')"
    and r: "lastResult st' = Some r"
    using assms
    by (auto simp: downloadInvoices_def new_Error_def split: if_splits sum.splits option.splits)
  from l have "dispatch plat onP init_state (stream_pairs [] chunks) = Inr st'"
    by (auto simp: read_loop_dispatch split: sum.splits stream_end.splits)
  from dispatch_lastResult [OF this] r
  obtain p where "(''done'', p) \<in> set (stream_pairs [] chunks)" "JSON_parse plat p = Some r"
    by (auto simp: init_state_def)
  with l r show "\<exists>b' st' p. read_loop plat onP [] init_state chunks fin = Inr (b', st') \<and>
                   lastResult st' = Some r \<and> (''done'', p) \<in> set (stream_pairs [] chunks) \<and>
                   JSON_parse plat p = Some r"
    by blast
qed

text \<open>
  Two instances: a stream of one \<^verbatim>\<open>progress\<close> event ends in the error of the missing
  result, and a stream of one \<^verbatim>\<open>done\<close> event returns the payload of that event.
\<close>

theorem no_done_payload_fails_witness:
  "body (sample_response [''event: progress\<newline>data: '' @ payload_progress @ ''\<newline>''])
     = Some ([''event: progress\<newline>data: '' @ payload_progress @ ''\<newline>''], Done) \<and>
   read_loop sample_platform True [] init_state
       [''event: progress\<newline>data: '' @ payload_progress @ ''\<newline>''] Done
     = Inr ([], \<lparr>lastResult = None,
            progress_calls = [\<lparr>current = JNum 1, total = JNum 2, message = JStr ''facture 1''\<rparr>]\<rparr>) \<and>
   stream_pairs [] [''event: progress\<newline>data: '' @ payload_progress @ ''\<newline>'']
     = [(''progress'', payload_progress)] \<and>
   downloadInvoices sample_platform True
       (Inr (sample_response [''event: progress\<newline>data: '' @ payload_progress @ ''\<newline>'']))
     = Inl (new_Error msg_no_result) \<and>
   downloadInvoices sample_platform True
       (Inr (sample_response [''event: done\<newline>data: '' @ payload_done @ ''\<newline>'']))
     = Inr (JObj [(''success'', JBool True), (''message'', JStr ''ok''), (''count'', JNum 1),
                  (''files'', JArr [JStr ''a.pdf''])]) \<and>
   (\<exists>p. (''done'', p) \<in> set (stream_pairs [] [''event: done\<newline>data: '' @ payload_done @ ''\<newline>''])
      \<and> JSON_parse sample_platform p
          = Some (JObj [(''success'', JBool True), (''message'', JStr ''ok''), (''count'', JNum 1),
                        (''files'', JArr [JStr ''a.pdf''])]))"
proof -
  let ?c1 = "[''event: progress\<newline>data: '' @ payload_progress @ ''\<newline>'']"
  let ?c2 = "[''event: done\<newline>data: '' @ payload_done @ ''\<newline>'']"
  let ?st = "\<lparr>lastResult = None,
            progress_calls = [\<lparr>current = JNum (1::int), total = JNum 2, message = JStr ''facture 1''\<rparr>]\<rparr>"
  let ?r = "JObj [(''success'', JBool True), (''message'', JStr ''ok''), (''count'', JNum (1::int)),
                  (''files'', JArr [JStr ''a.pdf''])]"
  have b1: "body (sample_response ?c1) = Some (?c1, Done)"
    by (simp add: sample_response_def)
  have b2: "body (sample_response ?c2) = Some (?c2, Done)"
    by (simp add: sample_response_def)
  have l1: "read_loop sample_platform True [] init_state ?c1 Done = Inr ([], ?st)"
    by code_simp
  have p1: "stream_pairs [] ?c1 = [(''progress'', payload_progress)]"
    by code_simp
  have d2: "downloadInvoices sample_platform True (Inr (sample_response ?c2)) = Inr ?r"
    by code_simp
  from no_done_payload_fails [OF b1, of sample_platform True "[]" ?st] l1 p1
  have c1: "downloadInvoices sample_platform True (Inr (sample_response ?c1))
              = Inl (new_Error msg_no_result)"
    by simp
  from no_done_payload_fails [OF b2, of sample_platform True _ _ ?r] d2
  have c2: "\<exists>p. (''done'', p) \<in> set (stream_pairs [] ?c2) \<and> JSON_parse sample_platform p = Some ?r"
    by blast
  show ?thesis using b1 l1 p1 c1 d2 c2 by blast
qed

text \<open>
  C9. A trailing text without a newline at the end of the stream, however it is spread
  over the last chunks, yields no pair: with or without it the decoder hands over the same
  pairs and the loop ends in the same state, the text is what the buffer gains, and the
  operation has the same outcome, since the buffer is not read after the loop. At the end
  of any stream the buffer holds the text after the last newline.
\<close>

theorem trailing_partial_line_discarded:
  assumes "CHR 0x0A \<notin> set t" and "\<forall>u\<in>set ts. CHR 0x0A \<notin> set u"
  shows "stream_pairs buffer (chunks @ (c @ t) # ts) = stream_pairs buffer (chunks @ [c]) \<and>
         final_buffer buffer (chunks @ (c @ t) # ts)
           = final_buffer buffer (chunks @ [c]) @ t @ concat ts \<and>
         read_loop plat onP buffer st (chunks @ (c @ t) # ts) fin =
           (case read_loop plat onP buffer st (chunks @ [c]) fin of
              Inl e \<Rightarrow> Inl e
            | Inr (b, st') \<Rightarrow> Inr (b @ t @ concat ts, st')) \<and>
         downloadInvoices plat onP (Inr (resp\<lparr>body := Some (chunks @ (c @ t) # ts, fin)\<rparr>)) =
           downloadInvoices plat onP (Inr (resp\<lparr>body := Some (chunks @ [c], fin)\<rparr>)) \<and>
         (read_loop plat onP [] st cs Done = Inr (b', st'')
            \<longrightarrow> b' = last (split_nl (concat cs)))"
proof -
  have s: "split_nl (b @ c @ t) = butlast (split_nl (b @ c)) @ [last (split_nl (b @ c)) @ t]" for b
    using split_nl_append_no_nl [OF assms(1), of "b @ c"] by simp
  have n: "CHR 0x0A \<notin> set (final_buffer b0 (chunks @ [c]) @ t)" for b0
    using assms(1) by (simp add: final_buffer_append last_split_nl_no_nl)
  have p1: "stream_pairs b0 (chunks @ [c @ t]) = stream_pairs b0 (chunks @ [c])" for b0
    by (simp add: stream_pairs_append s)
  have f1: "final_buffer b0 (chunks @ [c @ t]) = final_buffer b0 (chunks @ [c]) @ t" for b0
    by (simp add: final_buffer_append s)
  have e: "chunks @ (c @ t) # ts = (chunks @ [c @ t]) @ ts"
    by simp
  have p: "stream_pairs b0 (chunks @ (c @ t) # ts) = stream_pairs b0 (chunks @ [c])" for b0
    unfolding e stream_pairs_append [of b0 "chunks @ [c @ t]" ts]
    using chunks_without_newline [OF n assms(2), of b0] by (simp add: p1 f1)
  have f: "final_buffer b0 (chunks @ (c @ t) # ts)
             = final_buffer b0 (chunks @ [c]) @ t @ concat ts" for b0
    unfolding e final_buffer_append [of b0 "chunks @ [c @ t]" ts]
    using chunks_without_newline [OF n assms(2), of b0] by (simp add: f1)
  have r: "read_loop plat onP b0 s0 (chunks @ (c @ t) # ts) fin =
           (case read_loop plat onP b0 s0 (chunks @ [c]) fin of
              Inl e \<Rightarrow> Inl e
            | Inr (b, st') \<Rightarrow> Inr (b @ t @ concat ts, st'))" for b0 s0
    by (simp add: read_loop_dispatch p f split: sum.splits stream_end.splits)
  have d: "downloadInvoices plat onP (Inr (resp\<lparr>body := Some (chunks @ (c @ t) # ts, fin)\<rparr>)) =
           downloadInvoices plat onP (Inr (resp\<lparr>body := Some (chunks @ [c], fin)\<rparr>))"
    by (simp add: downloadInvoices_def r split: sum.splits)
  have l: "read_loop plat onP [] st cs Done = Inr (b', st'') \<longrightarrow> b' = last (split_nl (concat cs))"
    by (auto simp: read_loop_dispatch final_buffer_eq split: sum.splits)
  from p f r d l show ?thesis by blast
qed

text \<open>
  An instance: the stream ends inside the \<^verbatim>\<open>data:\<close> line of a \<^verbatim>\<open>done\<close> event, the line
  being cut once more by a chunk boundary. The line stays in the buffer and no result is
  recorded.
\<close>

theorem trailing_partial_line_discarded_witness:
  "CHR 0x0A \<notin> set ''data: '' \<and> CHR 0x0A \<notin> set payload_done \<and>
   stream_pairs [] ([] @ (''event: done\<newline>'' @ ''data: '') # [payload_done]) = [] \<and>
   read_loop sample_platform True [] init_state
       ([] @ (''event: done\<newline>'' @ ''data: '') # [payload_done]) Done
     = Inr (''data: '' @ payload_done, init_state) \<and>
   ''data: '' @ payload_done
     = last (split_nl (concat ([] @ (''event: done\<newline>'' @ ''data: '') # [payload_done]))) \<and>
   downloadInvoices sample_platform True
       (Inr ((sample_response [])
          \<lparr>body := Some ([] @ (''event: done\<newline>'' @ ''data: '') # [payload_done], Done)\<rparr>))
     = Inl (new_Error msg_no_result)"
proof -
  let ?t = "''data: ''"
  let ?cs = "[] @ (''event: done\<newline>'' @ ?t) # [payload_done]"
  have h1: "CHR 0x0A \<notin> set ?t"
    by simp
  have h2': "CHR 0x0A \<notin> set payload_done"
    by code_simp
  then have h2: "\<forall>u\<in>set [payload_done]. CHR 0x0A \<notin> set u"
    by simp
  have e1: "stream_pairs [] ([] @ [''event: done\<newline>'']) = []"
    by code_simp
  have e2: "read_loop sample_platform True [] init_state ([] @ [''event: done\<newline>'']) Done
              = Inr ([], init_state)"
    by code_simp
  have e3: "downloadInvoices sample_platform True
              (Inr ((sample_response [])\<lparr>body := Some ([] @ [''event: done\<newline>''], Done)\<rparr>))
            = Inl (new_Error msg_no_result)"
    by code_simp
  note t = trailing_partial_line_discarded [OF h1 h2, where buffer = "[]" and chunks = "[]"
      and c = "''event: done\<newline>''" and plat = sample_platform and onP = True
      and st = init_state and fin = Done and resp = "sample_response []" and cs = ?cs
      and b' = "''data: '' @ payload_done" and st'' = init_state]
  from t e1 have c1: "stream_pairs [] ?cs = []"
    by simp
  from t e2 have c2: "read_loop sample_platform True [] init_state ?cs Done
          = Inr (''data: '' @ payload_done, init_state)"
    by simp
  from t c2 have c3: "''data: '' @ payload_done = last (split_nl (concat ?cs))"
    by blast
  from t e3 have c4: "downloadInvoices sample_platform True
          (Inr ((sample_response [])\<lparr>body := Some (?cs, Done)\<rparr>))
          = Inl (new_Error msg_no_result)"
    by simp
  show ?thesis by (intro conjI h1 h2' c1 c2 c3 c4)
qed

text \<open>
  C1. The event type does not survive a chunk boundary: \<^verbatim>\<open>eventType\<close> is declared inside the
  \<^verbatim>\<open>while\<close> loop, so each read starts from the empty event type. The same two lines, an
  \<^verbatim>\<open>event: done\<close> line and its \<^verbatim>\<open>data:\<close> line, yield the pair and the result when they arrive
  in one chunk, the pair again when a chunk boundary falls inside the first line, and no
  pair and the error of the missing result when the chunk boundary falls between them.
\<close>

theorem event_type_lost_at_chunk_boundary:
  "concat [''event: done\<newline>'', ''data: '' @ payload_done @ ''\<newline>'']
     = ''event: done\<newline>data: '' @ payload_done @ ''\<newline>'' \<and>
   stream_pairs [] [''event: done\<newline>data: '' @ payload_done @ ''\<newline>'']
     = [(''done'', payload_done)] \<and>
   stream_pairs [] [''event: do'', ''ne\<newline>data: '' @ payload_done @ ''\<newline>'']
     = [(''done'', payload_done)] \<and>
   stream_pairs [] [''event: done\<newline>'', ''data: '' @ payload_done @ ''\<newline>''] = [] \<and>
   downloadInvoices sample_platform True
       (Inr (sample_response [''event: done\<newline>data: '' @ payload_done @ ''\<newline>'']))
     = Inr (JObj [(''success'', JBool True), (''message'', JStr ''ok''), (''count'', JNum 1),
                  (''files'', JArr [JStr ''a.pdf''])]) \<and>
   downloadInvoices sample_platform True
       (Inr (sample_response [''event: done\<newline>'', ''data: '' @ payload_done @ ''\<newline>'']))
     = Inl (new_Error msg_no_result)"
  by code_simp

text \<open>
  C2, as the code has it. An \<^verbatim>\<open>error\<close> event that is reached, with a payload that parses to
  a value other than \<^verbatim>\<open>null\<close> and whose detail (the \<^verbatim>\<open>detail\<close> property, or \<^verbatim>\<open>Erreur\<close> when
  that property is missing or falsy) has a text, ends the operation with an error whose
  message is that text. Its \<^verbatim>\<open>requiresOtp\<close> property is truthy exactly when the
  \<^verbatim>\<open>requires_otp\<close> property of the payload is truthy or the text matches \<^verbatim>\<open>/2FA|OTP/i\<close>: the
  text is consulted whenever the flag is missing or falsy, also when the flag is an
  explicit \<^verbatim>\<open>false\<close>.
\<close>

theorem error_event_classification:
  assumes "body resp = Some (chunks, fin)"
    and "stream_pairs [] chunks = ps @ (''error'', payload) # qs"
    and "dispatch plat onP init_state ps = Inr st"
    and "JSON_parse plat payload = Some data"
    and "data \<noteq> JNull"
    and "ToString plat (or_else (own_prop data ''detail'') (JStr ''Erreur'')) = Inr text"
  shows "downloadInvoices plat onP (Inr resp) =
           Inl (JsError ''Error'' text
                 (Some (or_else (own_prop data ''requires_otp'') (JBool (test_2FA_OTP text))))) \<and>
         (truthy (or_else (own_prop data ''requires_otp'') (JBool (test_2FA_OTP text)))
            \<longleftrightarrow> truthy_opt (own_prop data ''requires_otp'') \<or> test_2FA_OTP text)"
proof -
  let ?r = "or_else (own_prop data ''requires_otp'') (JBool (test_2FA_OTP text))"
  have "dispatch plat onP init_state (stream_pairs [] chunks)
          = Inl (JsError ''Error'' text (Some ?r))"
    using assms by (simp add: dispatch_append handle_event_error)
  then have "read_loop plat onP [] init_state chunks fin = Inl (JsError ''Error'' text (Some ?r))"
    by (simp add: read_loop_dispatch)
  then have "downloadInvoices plat onP (Inr resp) = Inl (JsError ''Error'' text (Some ?r))"
    using assms(1) by (simp add: downloadInvoices_def)
  moreover have "truthy ?r \<longleftrightarrow> truthy_opt (own_prop data ''requires_otp'') \<or> test_2FA_OTP text"
    by (simp add: truthy_or_else)
  ultimately show ?thesis by blast
qed

text \<open>
  An instance: an \<^verbatim>\<open>error\<close> event after a \<^verbatim>\<open>progress\<close> event, with no flag and a detail that
  names no code, ends the operation with that detail and a false \<^verbatim>\<open>requiresOtp\<close>.
\<close>

theorem error_event_classification_witness:
  "body (sample_response [''event: progress\<newline>data: '' @ payload_progress @ ''\<newline>'',
                          ''event: error\<newline>data: '' @ payload_plain @ ''\<newline>''])
     = Some ([''event: progress\<newline>data: '' @ payload_progress @ ''\<newline>'',
              ''event: error\<newline>data: '' @ payload_plain @ ''\<newline>''], Done) \<and>
   stream_pairs [] [''event: progress\<newline>data: '' @ payload_progress @ ''\<newline>'',
                    ''event: error\<newline>data: '' @ payload_plain @ ''\<newline>'']
     = [(''progress'', payload_progress)] @ (''error'', payload_plain) # [] \<and>
   dispatch sample_platform True init_state [(''progress'', payload_progress)]
     = Inr \<lparr>lastResult = None,
            progress_calls = [\<lparr>current = JNum 1, total = JNum 2, message = JStr ''facture 1''\<rparr>]\<rparr> \<and>
   JSON_parse sample_platform payload_plain = Some (JObj [(''detail'', JStr ''Identifiants invalides'')]) \<and>
   JObj [(''detail'', JStr ''Identifiants invalides'')] \<noteq> (JNull :: int json) \<and>
   ToString sample_platform
       (or_else (own_prop (JObj [(''detail'', JStr ''Identifiants invalides'')]) ''detail'')
          (JStr ''Erreur''))
     = Inr ''Identifiants invalides'' \<and>
   downloadInvoices sample_platform True
       (Inr (sample_response [''event: progress\<newline>data: '' @ payload_progress @ ''\<newline>'',
                              ''event: error\<newline>data: '' @ payload_plain @ ''\<newline>'']))
     = Inl (JsError ''Error'' ''Identifiants invalides'' (Some (JBool False)))"
proof -
  let ?chunks = "[''event: progress\<newline>data: '' @ payload_progress @ ''\<newline>'',
                  ''event: error\<newline>data: '' @ payload_plain @ ''\<newline>'']"
  let ?data = "JObj [(''detail'', JStr ''Identifiants invalides'')] :: int json"
  let ?st = "\<lparr>lastResult = None,
            progress_calls = [\<lparr>current = JNum (1::int), total = JNum 2, message = JStr ''facture 1''\<rparr>]\<rparr>"
  have h1: "body (sample_response ?chunks) = Some (?chunks, Done)"
    by (simp add: sample_response_def)
  have h2: "stream_pairs [] ?chunks = [(''progress'', payload_progress)] @ (''error'', payload_plain) # []"
    by code_simp
  have h3: "dispatch sample_platform True init_state [(''progress'', payload_progress)] = Inr ?st"
    by code_simp
  have h4: "JSON_parse sample_platform payload_plain = Some ?data"
    by code_simp
  have h5: "?data \<noteq> JNull"
    by simp
  have h6: "ToString sample_platform (or_else (own_prop ?data ''detail'') (JStr ''Erreur''))
             = Inr ''Identifiants invalides''"
    by code_simp
  have f: "or_else (own_prop ?data ''requires_otp'') (JBool (test_2FA_OTP ''Identifiants invalides''))
             = JBool False"
    by code_simp
  from error_event_classification [OF h1 h2 h3 h4 h5 h6]
  have c: "downloadInvoices sample_platform True (Inr (sample_response ?chunks))
          = Inl (JsError ''Error'' ''Identifiants invalides'' (Some (JBool False)))"
    unfolding f by blast
  show ?thesis by (intro conjI h1 h2 h3 h4 h5 h6 c)
qed

text \<open>
  C2 as it is written fails: a payload with \<^verbatim>\<open>requires_otp: false\<close> and a detail that
  mentions 2FA ends the operation with \<^verbatim>\<open>requiresOtp\<close> true.
\<close>

theorem explicit_false_flag_counterexample:
  "JSON_parse sample_platform payload_flag_false
     = Some (JObj [(''detail'', JStr ''2FA code expired''), (''requires_otp'', JBool False)]) \<and>
   downloadInvoices sample_platform True
       (Inr (sample_response [''event: error\<newline>data: '' @ payload_flag_false @ ''\<newline>'']))
     = Inl (JsError ''Error'' ''2FA code expired'' (Some (JBool True)))"
  by code_simp

subsection \<open>Claims about the first response\<close>



subsection \<open>Claims about the session\<close>

lemma handleDownload_begin_eq:
  "handleDownload_begin params w =
     (length (controllers w),
      w\<lparr>controllers :=
           (case abortControllerRef w of
              None \<Rightarrow> controllers w
            | Some old \<Rightarrow> (controllers w)[old := True]) @ [False],
        log := log w @ (case abortControllerRef w of None \<Rightarrow> [] | Some old \<Rightarrow> [Abort old])
                 @ [Create (length (controllers w)), Download params (length (controllers w))],
        abortControllerRef := Some (length (controllers w)),
        loading := True, error := None, result := None, progress := None,
        requiresOTP := False, otpError := None, status := status_connecting\<rparr>)"
  by (cases "abortControllerRef w") (simp_all add: handleDownload_begin_def abort_current_def Let_def)

lemma handleDownload_end_fields:
  "log (handleDownload_end params c outcome w) = log w"
  "controllers (handleDownload_end params c outcome w) = controllers w"
  "abortControllerRef (handleDownload_end params c outcome w) =
     (if abortControllerRef w = Some c then None else abortControllerRef w)"
  by (auto simp: handleDownload_end_def Let_def split: sum.splits)

lemma handleDownload_log:
  "log (handleDownload plat srv params w) = log (snd (handleDownload_begin params w))"
  by (simp add: handleDownload_def Let_def split_beta handleDownload_end_fields)

text \<open>
  All but one of the downloads in flight have an aborted controller, and the one that may
  not is the one the reference holds.
\<close>

lemma session_invariant:
  "session w fl \<Longrightarrow>
     distinct fl \<and> (\<forall>c\<in>set fl. c < length (controllers w)) \<and>
     (\<forall>c. abortControllerRef w = Some c \<longrightarrow> c < length (controllers w)) \<and>
     (\<forall>c\<in>set fl. abortControllerRef w \<noteq> Some c \<longrightarrow> controllers w ! c)"
proof (induction rule: session.induct)
  case (mounted w)
  then show ?case by simp
next
  case (started w fl params c w')
  from started.hyps(2) have c: "c = length (controllers w)"
    and w': "controllers w' =
               (case abortControllerRef w of
                  None \<Rightarrow> controllers w
                | Some old \<Rightarrow> (controllers w)[old := True]) @ [False]"
    and r: "abortControllerRef w' = Some c"
    by (auto simp: handleDownload_begin_eq)
  have len: "length (controllers w') = Suc (length (controllers w))"
    using w' by (simp split: option.splits)
  have old: "controllers w' ! d" if "d \<in> set fl" for d
  proof (cases "abortControllerRef w = Some d")
    case True
    then show ?thesis using started.IH that w' by (simp add: nth_append)
  next
    case False
    then have "controllers w ! d" using started.IH that by blast
    moreover have "d < length (controllers w)" using started.IH that by blast
    moreover have "\<forall>a. abortControllerRef w = Some a \<longrightarrow> a < length (controllers w)"
      using started.IH by blast
    ultimately show ?thesis using w'
      by (cases "abortControllerRef w") (auto simp: nth_append nth_list_update)
  qed
  show ?case using started.IH c r len old by auto
next
  case (settled w fl c params outcome)
  then show ?case by (auto simp: handleDownload_end_fields)
next
  case (cancelled w fl)
  then show ?case
    by (cases "abortControllerRef w")
       (auto simp: handleCancelDownload_def abort_current_def nth_list_update)
next
  case (other w fl w')
  then show ?case by simp
qed

lemma length_filter_le_one:
  assumes "distinct xs" and "\<forall>x\<in>set xs. P x \<longrightarrow> x = a"
  shows "length (filter P xs) \<le> 1"
proof -
  have "set (filter P xs) \<subseteq> {a}" using assms(2) by auto
  then have "card (set (filter P xs)) \<le> card {a}"
    by (intro card_mono) simp_all
  moreover have "length (filter P xs) = card (set (filter P xs))"
    using assms(1) distinct_card [of "filter P xs"] by simp
  ultimately show ?thesis by simp
qed

text \<open>
  C4. Every call of \<^verbatim>\<open>handleDownload\<close> first aborts the controller the reference holds, if
  there is one, then creates a fresh controller, stores it in the reference and passes its
  signal to \<^verbatim>\<open>downloadInvoices\<close>; the log shows the three actions in this order and the
  rest of the handler adds none. Hence, however the handlers interleave, at most one of
  the downloads in flight has a controller that is not aborted.
\<close>

theorem new_download_aborts_previous:
  "(handleDownload_begin params w = (c, w') \<longrightarrow>
      c = length (controllers w) \<and> abortControllerRef w' = Some c \<and>
      controllers w' =
        (case abortControllerRef w of
           None \<Rightarrow> controllers w
         | Some old \<Rightarrow> (controllers w)[old := True]) @ [False] \<and>
      log w' = log w @ (case abortControllerRef w of None \<Rightarrow> [] | Some old \<Rightarrow> [Abort old])
                 @ [Create c, Download params c] \<and>
      log (handleDownload plat srv params w) = log w') \<and>
   (session v fl \<longrightarrow> length (filter (\<lambda>d. \<not> controllers v ! d) fl) \<le> 1)"
proof (intro conjI impI)
  assume a: "handleDownload_begin params w = (c, w')"
  then show "c = length (controllers w)" "abortControllerRef w' = Some c"
    "controllers w' =
        (case abortControllerRef w of
           None \<Rightarrow> controllers w
         | Some old \<Rightarrow> (controllers w)[old := True]) @ [False]"
    "log w' = log w @ (case abortControllerRef w of None \<Rightarrow> [] | Some old \<Rightarrow> [Abort old])
                 @ [Create c, Download params c]"
    by (auto simp: handleDownload_begin_eq)
  show "log (handleDownload plat srv params w) = log w'"
    using a by (simp add: handleDownload_log)
next
  assume "session v fl"
  from session_invariant [OF this]
  have d: "distinct fl"
    and r: "\<forall>d\<in>set fl. abortControllerRef v \<noteq> Some d \<longrightarrow> controllers v ! d"
    by blast+
  show "length (filter (\<lambda>d. \<not> controllers v ! d) fl) \<le> 1"
  proof (cases "abortControllerRef v")
    case None
    then have "filter (\<lambda>d. \<not> controllers v ! d) fl = []" using r by (auto simp: filter_empty_conv)
    then show ?thesis by simp
  next
    case (Some a)
    then have "\<forall>d\<in>set fl. \<not> controllers v ! d \<longrightarrow> d = a" using r by auto
    with d show ?thesis by (rule length_filter_le_one)
  qed
qed

text \<open>
  An instance: a second download is started while the first is in flight. The first
  controller is aborted before the second is created, and of the two downloads in flight
  only the second is live.
\<close>

theorem new_download_aborts_previous_witness:
  "handleDownload_begin sample_params one_in_flight = (1, two_in_flight) \<and>
   abortControllerRef one_in_flight = Some 0 \<and>
   controllers one_in_flight = [False] \<and>
   controllers two_in_flight = [True, False] \<and>
   abortControllerRef two_in_flight = Some 1 \<and>
   log two_in_flight =
     [Create 0, Download sample_params 0, Abort 0, Create 1, Download sample_params 1] \<and>
   session two_in_flight [1, 0] \<and>
   length (filter (\<lambda>d. \<not> controllers two_in_flight ! d) [1, 0]) \<le> 1"
proof -
  have r0: "abortControllerRef initial_app = None"
    by (simp add: initial_app_def)
  have b1: "handleDownload_begin sample_params initial_app = (0, one_in_flight)"
    by (simp add: one_in_flight_def handleDownload_begin_eq initial_app_def)
  have r1: "abortControllerRef one_in_flight = Some 0" and c1: "controllers one_in_flight = [False]"
    and l1: "log one_in_flight = [Create 0, Download sample_params 0]"
    by (simp_all add: one_in_flight_def handleDownload_begin_eq initial_app_def)
  have b2: "handleDownload_begin sample_params one_in_flight = (1, two_in_flight)"
    by (simp add: two_in_flight_def handleDownload_begin_eq c1)
  have s: "session two_in_flight [1, 0]"
    using session.started [OF session.started [OF session.mounted [OF r0] b1] b2] .
  note t = new_download_aborts_previous [of sample_params one_in_flight 1 two_in_flight
      sample_platform sample_backend two_in_flight "[1, 0]"]
  from t b2 r1 c1 l1
  have u: "controllers two_in_flight = [True, False]" "abortControllerRef two_in_flight = Some 1"
    "log two_in_flight =
       [Create 0, Download sample_params 0, Abort 0, Create 1, Download sample_params 1]"
    by simp_all
  from t s have v: "length (filter (\<lambda>d. \<not> controllers two_in_flight ! d) [1, 0]) \<le> 1"
    by blast
  show ?thesis by (intro conjI b2 r1 c1 u s v)
qed

text \<open>
  C7. A code of fewer than four characters, the empty code among them, only sets the
  validation message: the state is otherwise unchanged and the log gains no action. With
  a code of four characters or more, the next action of the log is the call of
  \<^verbatim>\<open>submitOTP\<close> with that code.
\<close>

theorem short_code_rejected_locally:
  "(length (otpCode w) < 4 \<longrightarrow>
      handleSubmitOTP plat srv w = w\<lparr>otpError := Some msg_code_too_short\<rparr> \<and>
      log (handleSubmitOTP plat srv w) = log w) \<and>
   (4 \<le> length (otpCode w) \<longrightarrow>
      (\<exists>rest. log (handleSubmitOTP plat srv w) = log w @ SubmitOTP (otpCode w) # rest))"
proof (intro conjI impI)
  assume "length (otpCode w) < 4"
  then show "handleSubmitOTP plat srv w = w\<lparr>otpError := Some msg_code_too_short\<rparr>"
    by (simp add: handleSubmitOTP_def)
  then show "log (handleSubmitOTP plat srv w) = log w"
    by simp
next
  assume a: "4 \<le> length (otpCode w)"
  have l: "\<exists>rest. log (handleDownload plat srv p w') = log w' @ rest" for p w'
    by (simp add: handleDownload_log handleDownload_begin_eq)
  show "\<exists>rest. log (handleSubmitOTP plat srv w) = log w @ SubmitOTP (otpCode w) # rest"
  proof (cases "otp_reply srv (length (filter is_SubmitOTP (log w))) (otpCode w)")
    case (Inl e)
    then show ?thesis using a by (auto simp: handleSubmitOTP_def Let_def)
  next
    case (Inr response)
    show ?thesis
    proof (cases "success response \<and> \<not> requires_otp response")
      case False
      then show ?thesis using a Inr by (auto simp: handleSubmitOTP_def Let_def)
    next
      case True
      show ?thesis
      proof (cases "pendingDownload w")
        case None
        then show ?thesis using a Inr True by (auto simp: handleSubmitOTP_def Let_def)
      next
        case (Some p)
        let ?w4 = "w\<lparr>otpError := None, loading := True,
                     log := log w @ [SubmitOTP (otpCode w)], requiresOTP := False,
                     status := status_otp_accepted, otpCode := []\<rparr>"
        from l [of p ?w4] obtain rest
          where "log (handleDownload plat srv p ?w4) = log ?w4 @ rest" by blast
        then show ?thesis using a Inr True Some by (auto simp: handleSubmitOTP_def Let_def)
      qed
    qed
  qed
qed

text \<open>
  Two instances on the state after a download that asked for a code: a code of three
  characters, and a code of six.
\<close>

theorem short_code_rejected_locally_witness:
  "length (otpCode (otp_round_1\<lparr>otpCode := ''123''\<rparr>)) < 4 \<and>
   handleSubmitOTP sample_platform sample_backend (otp_round_1\<lparr>otpCode := ''123''\<rparr>)
     = otp_round_1\<lparr>otpCode := ''123'', otpError := Some msg_code_too_short\<rparr> \<and>
   log (handleSubmitOTP sample_platform sample_backend (otp_round_1\<lparr>otpCode := ''123''\<rparr>))
     = log otp_round_1 \<and>
   4 \<le> length (otpCode (otp_round_1\<lparr>otpCode := ''123456''\<rparr>)) \<and>
   (\<exists>rest. log otp_round_2 = log otp_round_1 @ SubmitOTP ''123456'' # rest)"
proof -
  have h1: "length (otpCode (otp_round_1\<lparr>otpCode := ''123''\<rparr>)) < 4"
    by simp
  have h2: "4 \<le> length (otpCode (otp_round_1\<lparr>otpCode := ''123456''\<rparr>))"
    by simp
  note t1 = short_code_rejected_locally [of "otp_round_1\<lparr>otpCode := ''123''\<rparr>"
      sample_platform sample_backend]
  note t2 = short_code_rejected_locally [of "otp_round_1\<lparr>otpCode := ''123456''\<rparr>"
      sample_platform sample_backend]
  from t1 h1
  have c1: "handleSubmitOTP sample_platform sample_backend (otp_round_1\<lparr>otpCode := ''123''\<rparr>)
     = otp_round_1\<lparr>otpCode := ''123'', otpError := Some msg_code_too_short\<rparr>"
    and c2: "log (handleSubmitOTP sample_platform sample_backend (otp_round_1\<lparr>otpCode := ''123''\<rparr>))
     = log otp_round_1"
    by simp_all
  from t2 h2
  have c3: "\<exists>rest. log otp_round_2 = log otp_round_1 @ SubmitOTP ''123456'' # rest"
    by (simp add: otp_round_2_def)
  show ?thesis by (intro conjI h1 h2 c1 c2 c3)
qed

text \<open>
  The two steps of a resumption, each on its own: a download that fails with a truthy
  \<^verbatim>\<open>requiresOtp\<close> leaves its parameters pending, and an accepted code starts the pending
  download with the parameters that were stored.
\<close>

lemma otp_failure_stores_params:
  assumes "downloadInvoices plat True (fetch_reply srv (length (filter is_Download (log w))) params)
             = Inl e"
    and "err_name e \<noteq> ''AbortError''" and "truthy_opt (err_requiresOtp e)"
  shows "pendingDownload (handleDownload plat srv params w) = Some params \<and>
         requiresOTP (handleDownload plat srv params w)"
  using assms
  by (simp add: handleDownload_def handleDownload_begin_eq handleDownload_end_def Let_def)

lemma accepted_code_resumes_download:
  assumes "4 \<le> length (otpCode w)"
    and "otp_reply srv (length (filter is_SubmitOTP (log w))) (otpCode w) = Inr response"
    and "success response" and "\<not> requires_otp response"
    and "pendingDownload w = Some p"
  shows "log (handleSubmitOTP plat srv w) =
           log w @ [SubmitOTP (otpCode w)]
             @ (case abortControllerRef w of None \<Rightarrow> [] | Some old \<Rightarrow> [Abort old])
             @ [Create (length (controllers w)), Download p (length (controllers w))]"
  using assms
  by (auto simp: handleSubmitOTP_def Let_def handleDownload_log handleDownload_begin_eq)

text \<open>
  C3. A download that fails asking for a code stores its parameters, and a code that is
  accepted starts the download again with them. When that resumed download asks for a
  code again, \<^verbatim>\<open>handleDownload\<close> stores the parameters once more, but \<^verbatim>\<open>handleSubmitOTP\<close> then
  runs \<^verbatim>\<open>setPendingDownload(null)\<close>: the form for the code is shown with nothing pending, and
  the next accepted code starts no download.
\<close>

theorem resumed_download_loses_pending:
  "requiresOTP otp_round_1 \<and> pendingDownload otp_round_1 = Some sample_params \<and>
   log otp_round_1 = [Create 0, Download sample_params 0] \<and>
   log otp_round_2 =
     [Create 0, Download sample_params 0, SubmitOTP ''123456'',
      Create 1, Download sample_params 1] \<and>
   requiresOTP otp_round_2 \<and> pendingDownload otp_round_2 = None \<and>
   log otp_round_3 = log otp_round_2 @ [SubmitOTP ''654321''] \<and>
   \<not> requiresOTP otp_round_3 \<and> pendingDownload otp_round_3 = None"
  by code_simp

subsection \<open>Claims about the status display\<close>

text \<open>
  C10, as the code has it. The bar is rendered exactly when a progress is present and its
  total is positive, so the division is never by zero. Its width is the smaller of 100
  and \<^verbatim>\<open>Math.round\<close> of the double product by 100 of the double quotient of current by total,
  and never exceeds 100, whatever the doubles are. Where that product is the exact value of
  \<open>100 * current / total\<close>, the width is the smaller of 100 and that value rounded.
\<close>

theorem progress_bar_percentage:
  "(prog = None \<longrightarrow> progress_bar (StatusDisplay ar stat prog) = None) \<and>
   (prog = Some p \<longrightarrow>
      (progress_bar (StatusDisplay ar stat prog) \<noteq> None \<longleftrightarrow> 0 < ProgressInfo.total p)) \<and>
   percent ar prog \<le> 100 \<and>
   (prog = Some p \<and> 0 < ProgressInfo.total p \<longrightarrow>
      progress_bar (StatusDisplay ar stat prog) =
        Some (min 100 (Math_round (double_mul ar
          (double_div ar (ProgressInfo.current p) (ProgressInfo.total p)) 100)))) \<and>
   (prog = Some p \<and> 0 < ProgressInfo.total p \<and>
    double_mul ar (double_div ar (ProgressInfo.current p) (ProgressInfo.total p)) 100
      = 100 * ProgressInfo.current p / ProgressInfo.total p \<longrightarrow>
      progress_bar (StatusDisplay ar stat prog) =
        Some (min 100 (Math_round (100 * ProgressInfo.current p / ProgressInfo.total p))))"
  by (cases prog) (simp_all add: StatusDisplay_def showBar_def percent_def)

text \<open>
  Instances: no progress and an unknown total give no bar; 1 of 2, where the arithmetic is
  exact, gives 50; 3 of 2 gives 100.
\<close>

theorem progress_bar_percentage_witness:
  "progress_bar (StatusDisplay sample_arith ''1 facture(s)'' None) = None \<and>
   \<not> 0 < ProgressInfo.total progress_unknown_total \<and>
   progress_bar (StatusDisplay sample_arith ''facture 3'' (Some progress_unknown_total)) = None \<and>
   0 < ProgressInfo.total progress_1_of_2 \<and>
   double_mul sample_arith
       (double_div sample_arith (ProgressInfo.current progress_1_of_2)
          (ProgressInfo.total progress_1_of_2)) 100
     = 100 * ProgressInfo.current progress_1_of_2 / ProgressInfo.total progress_1_of_2 \<and>
   progress_bar (StatusDisplay sample_arith ''facture 1'' (Some progress_1_of_2)) = Some 50 \<and>
   0 < ProgressInfo.total progress_3_of_2 \<and>
   double_mul sample_arith
       (double_div sample_arith (ProgressInfo.current progress_3_of_2)
          (ProgressInfo.total progress_3_of_2)) 100
     = 100 * ProgressInfo.current progress_3_of_2 / ProgressInfo.total progress_3_of_2 \<and>
   progress_bar (StatusDisplay sample_arith ''facture 3'' (Some progress_3_of_2)) = Some 100 \<and>
   percent sample_arith (Some progress_3_of_2) \<le> 100"
proof -
  note t = progress_bar_percentage [where ar = sample_arith]
  have n: "progress_bar (StatusDisplay sample_arith ''1 facture(s)'' None) = None"
    using t [where prog = None and stat = "''1 facture(s)''"] by simp
  have u1: "\<not> 0 < ProgressInfo.total progress_unknown_total"
    by (simp add: progress_unknown_total_def)
  have u2: "progress_bar (StatusDisplay sample_arith ''facture 3'' (Some progress_unknown_total)) = None"
    using t [where prog = "Some progress_unknown_total" and p = progress_unknown_total
        and stat = "''facture 3''"] u1
    by simp
  have a1: "0 < ProgressInfo.total progress_1_of_2"
    by (simp add: progress_1_of_2_def)
  have a2: "double_mul sample_arith
       (double_div sample_arith (ProgressInfo.current progress_1_of_2)
          (ProgressInfo.total progress_1_of_2)) 100
     = 100 * ProgressInfo.current progress_1_of_2 / ProgressInfo.total progress_1_of_2"
    by code_simp
  have a3: "min 100 (Math_round (100 * ProgressInfo.current progress_1_of_2
              / ProgressInfo.total progress_1_of_2)) = 50"
    by code_simp
  have a4: "progress_bar (StatusDisplay sample_arith ''facture 1'' (Some progress_1_of_2)) = Some 50"
    using t [where prog = "Some progress_1_of_2" and p = progress_1_of_2
        and stat = "''facture 1''"] a1 a2 a3
    by simp
  have b1: "0 < ProgressInfo.total progress_3_of_2"
    by (simp add: progress_3_of_2_def)
  have b2: "double_mul sample_arith
       (double_div sample_arith (ProgressInfo.current progress_3_of_2)
          (ProgressInfo.total progress_3_of_2)) 100
     = 100 * ProgressInfo.current progress_3_of_2 / ProgressInfo.total progress_3_of_2"
    by code_simp
  have b3: "min 100 (Math_round (100 * ProgressInfo.current progress_3_of_2
              / ProgressInfo.total progress_3_of_2)) = 100"
    by code_simp
  have b4: "progress_bar (StatusDisplay sample_arith ''facture 3'' (Some progress_3_of_2)) = Some 100"
    using t [where prog = "Some progress_3_of_2" and p = progress_3_of_2
        and stat = "''facture 3''"] b1 b2 b3
    by simp
  have b5: "percent sample_arith (Some progress_3_of_2) \<le> 100"
    using t [where prog = "Some progress_3_of_2"] by blast
  show ?thesis by (intro conjI n u1 u2 a1 a2 a4 b1 b2 b4 b5)
qed

text \<open>
  C10 as it is written fails at 23 of 40: the double quotient lies below 23/40, its double
  product by 100 lies below 57.5, and the bar shows 57, where \<open>100 * 23 / 40\<close> rounds to 58.
\<close>

theorem percentage_rounding_counterexample:
  "0 < ProgressInfo.total progress_23_of_40 \<and> 0 \<le> ProgressInfo.current progress_23_of_40 \<and>
   double_div sample_arith (ProgressInfo.current progress_23_of_40)
       (ProgressInfo.total progress_23_of_40)
     = 2589569785738035 / 4503599627370496 \<and>
   double_mul sample_arith (2589569785738035 / 4503599627370496) 100
     = 8092405580431359 / 140737488355328 \<and>
   progress_bar (StatusDisplay sample_arith ''facture 23'' (Some progress_23_of_40)) = Some 57 \<and>
   min 100 (Math_round (100 * ProgressInfo.current progress_23_of_40
      / ProgressInfo.total progress_23_of_40)) = 58"
  by code_simp

end
